theory Spec2Isabelle
  imports Main
begin

section \<open>The secrets fetcher (main.py) as state-passing functions\<close>

text \<open>
  The program is a sequence of calls to the terminal, the AWS SDK, the file system and
  the JSON library. Each of them is made explicit here: the terminal, the file system
  and the record of what was called are the \<open>world\<close> a function takes and returns; what
  the surroundings answer (the environment variable, the command line, the remote
  service, the JSON library) is the read-only \<open>environ\<close>. An exception is a value of type
  \<open>exn\<close>, and a function that may raise returns \<open>exn + 'a\<close> with \<open>Inl\<close> for the exception.
  A string of the run is a HOL string, each character one code point below 256; text
  typed at the terminal is taken to be ASCII. The contents of a file are bytes, each
  character one byte.
\<close>

subsection \<open>Exceptions\<close>

datatype exn =
    ClientError string string  \<comment> \<open>botocore.exceptions.ClientError: error code, and \<open>str(e)\<close>\<close>
  | SdkError string            \<comment> \<open>any other exception raised by the SDK\<close>
  | KeyError string
  | ValueError
  | IndexError
  | EOFError
  | OSError string
  | JSONDecodeError
  | RecursionError
  | UnicodeEncodeError
  | UnicodeDecodeError

subsection \<open>The remote service\<close>

text \<open>
  A response of the service is a dict; only its string-valued fields matter to the
  program, so a response is a map from field names to strings. A page of the
  list operation maps \<open>SecretList\<close> to a list of entries, each again a dict.
  Pages arrive one at a time and the transport may fail between two pages.
\<close>

type_synonym response = "string \<rightharpoonup> string"
type_synonym secret_entry = "string \<rightharpoonup> string"
type_synonym page = "string \<rightharpoonup> secret_entry list"

datatype page_stream =
    NoMorePages
  | NextPage page page_stream
  | PageError exn

record client =
  get_secret_value :: "string \<Rightarrow> exn + response"
  paginate :: page_stream

text \<open>\<open>session.client(service_name="secretsmanager", region_name=r)\<close>: may raise.\<close>

type_synonym boto = "string \<Rightarrow> exn + client"

subsection \<open>The world\<close>

datatype event =
    Print string         \<comment> \<open>\<open>print(s)\<close>: \<open>s\<close> and a newline on standard output\<close>
  | Prompt string        \<comment> \<open>\<open>input(p)\<close>: \<open>p\<close> on standard output, no newline\<close>
  | AwsClient string     \<comment> \<open>a client of the service was asked for, for this region\<close>
  | GetSecretValue string
  | OsSystem string      \<comment> \<open>\<open>os.system(cmd)\<close>\<close>

record world =
  stdin :: "string list"            \<comment> \<open>the lines still to be typed\<close>
  events :: "event list"            \<comment> \<open>what has happened so far, oldest first\<close>
  files :: "string \<rightharpoonup> string"  \<comment> \<open>the text of each file that exists\<close>

type_synonym 'a io = "world \<Rightarrow> (exn + 'a) \<times> world"

definition returnE :: "'a \<Rightarrow> 'a io" where
  "returnE x w = (Inr x, w)"

definition raiseE :: "exn \<Rightarrow> 'a io" where
  "raiseE e w = (Inl e, w)"

definition liftE :: "exn + 'a \<Rightarrow> 'a io" where
  "liftE r w = (r, w)"

definition bindE :: "'a io \<Rightarrow> ('a \<Rightarrow> 'b io) \<Rightarrow> 'b io" where
  "bindE m f w = (case m w of (Inl e, w') \<Rightarrow> (Inl e, w') | (Inr x, w') \<Rightarrow> f x w')"

definition emit :: "event \<Rightarrow> unit io" where
  "emit ev w = (Inr (), w\<lparr>events := events w @ [ev]\<rparr>)"

definition py_print :: "string \<Rightarrow> unit io" where
  "py_print s = emit (Print s)"

text \<open>\<open>input(prompt)\<close> writes the prompt, then reads a line; at end of input it raises.\<close>

definition py_input :: "string \<Rightarrow> string io" where
  "py_input prompt w =
     (case stdin w of
        [] \<Rightarrow> (Inl EOFError, w\<lparr>events := events w @ [Prompt prompt]\<rparr>)
      | line # rest \<Rightarrow> (Inr line, w\<lparr>stdin := rest, events := events w @ [Prompt prompt]\<rparr>))"

definition squote :: string where
  "squote = [CHR 0x27]"

definition NL :: string where
  "NL = [CHR 0x0A]"

subsection \<open>fetch_secret (main.py, lines 10 to 35)\<close>

definition fetch_secret :: "boto \<Rightarrow> string \<Rightarrow> string \<Rightarrow> string option io" where
  "fetch_secret boto secret_name region_name =
     bindE (emit (AwsClient region_name)) (\<lambda>_.
     bindE (liftE (boto region_name)) (\<lambda>client.
     bindE (emit (GetSecretValue secret_name)) (\<lambda>_.
       case get_secret_value client secret_name of
         Inr response \<Rightarrow>
           (case response ''SecretString'' of
              None \<Rightarrow> raiseE (KeyError ''SecretString'')
            | Some secret_value \<Rightarrow> returnE (Some secret_value))
       | Inl e \<Rightarrow>
           (case e of
              ClientError code str_e \<Rightarrow>
                bindE (py_print
                  (if code = ''ResourceNotFoundException''
                   then ''ERROR: Secret '' @ squote @ secret_name @ squote @ '' not found.''
                   else ''ERROR: An error occurred while fetching secret '' @ squote
                        @ secret_name @ squote @ '': '' @ str_e))
                  (\<lambda>_. returnE None)
            | _ \<Rightarrow> raiseE e))))"

subsection \<open>list_all_secrets (main.py, lines 38 to 57)\<close>

text \<open>
  The loop over the pages extends \<open>secrets\<close> by each page's \<open>SecretList\<close>; the names are
  taken only after the last page has arrived.
\<close>

fun extend_pages :: "page_stream \<Rightarrow> secret_entry list \<Rightarrow> exn + secret_entry list" where
  "extend_pages NoMorePages secrets = Inr secrets"
| "extend_pages (PageError e) secrets = Inl e"
| "extend_pages (NextPage page later) secrets =
     (case page ''SecretList'' of
        None \<Rightarrow> Inl (KeyError ''SecretList'')
      | Some entries \<Rightarrow> extend_pages later (secrets @ entries))"

fun names_of :: "secret_entry list \<Rightarrow> exn + string list" where
  "names_of [] = Inr []"
| "names_of (secret # later) =
     (case secret ''Name'' of
        None \<Rightarrow> Inl (KeyError ''Name'')
      | Some name \<Rightarrow>
          (case names_of later of Inl e \<Rightarrow> Inl e | Inr names \<Rightarrow> Inr (name # names)))"

definition list_all_secrets :: "boto \<Rightarrow> string \<Rightarrow> string list io" where
  "list_all_secrets boto region_name =
     bindE (emit (AwsClient region_name)) (\<lambda>_.
     bindE (liftE (boto region_name)) (\<lambda>client.
     bindE (liftE (extend_pages (paginate client) [])) (\<lambda>secrets.
     liftE (names_of secrets))))"

subsection \<open>clear_screen (lines 60 to 67) and write_to_file (lines 70 to 79)\<close>

definition clear_screen :: "string \<Rightarrow> unit io" where
  "clear_screen os_name =
     (if os_name = ''nt'' then emit (OsSystem ''cls'') else emit (OsSystem ''clear''))"

text \<open>
  A Python string is a list of code points. Opening a file for writing creates it or
  empties it, and fails where the path cannot be created. A write in text mode turns
  every line feed into the line separator of the platform and encodes the result in
  UTF-8; a surrogate code point makes the encoding fail, before anything is written.
  The bytes are appended to what the file holds since it was opened.
\<close>

type_synonym pystr = "nat list"

definition code_points :: "string \<Rightarrow> pystr" where
  "code_points s = map of_char s"

definition linesep :: "string \<Rightarrow> pystr" where
  "linesep os_name = (if os_name = ''nt'' then [13, 10] else [10])"

definition translate_newlines :: "pystr \<Rightarrow> pystr \<Rightarrow> pystr" where
  "translate_newlines sep cps = concat (map (\<lambda>cp. if cp = 10 then sep else [cp]) cps)"

definition is_surrogate :: "nat \<Rightarrow> bool" where
  "is_surrogate cp = (0xD800 \<le> cp \<and> cp \<le> 0xDFFF)"

definition encodable :: "nat \<Rightarrow> bool" where
  "encodable cp = (cp < 0x110000 \<and> \<not> is_surrogate cp)"

definition utf8_cp :: "nat \<Rightarrow> nat list" where
  "utf8_cp cp =
     (if cp < 0x80 then [cp]
      else if cp < 0x800 then [0xC0 + cp div 64, 0x80 + cp mod 64]
      else if cp < 0x10000 then
        [0xE0 + cp div 4096, 0x80 + cp div 64 mod 64, 0x80 + cp mod 64]
      else [0xF0 + cp div 262144, 0x80 + cp div 4096 mod 64, 0x80 + cp div 64 mod 64,
            0x80 + cp mod 64])"

definition utf8 :: "pystr \<Rightarrow> nat list" where
  "utf8 cps = concat (map utf8_cp cps)"

definition open_w :: "(string \<Rightarrow> bool) \<Rightarrow> string \<Rightarrow> string io" where
  "open_w can_create path w =
     (if can_create path then (Inr path, w\<lparr>files := (files w)(path \<mapsto> [])\<rparr>)
      else (Inl (OSError path), w))"

definition file_write :: "string \<Rightarrow> string \<Rightarrow> pystr \<Rightarrow> unit io" where
  "file_write os_name file s w =
     (if list_all encodable (translate_newlines (linesep os_name) s)
      then (Inr (), w\<lparr>files := (files w)(file \<mapsto>
              (case files w file of None \<Rightarrow> [] | Some old \<Rightarrow> old)
              @ map char_of (utf8 (translate_newlines (linesep os_name) s)))\<rparr>)
      else (Inl UnicodeEncodeError, w))"

definition write_to_file :: "(string \<Rightarrow> bool) \<Rightarrow> string \<Rightarrow> pystr \<Rightarrow> string \<Rightarrow> unit io" where
  "write_to_file can_create os_name secret_value output_file =
     bindE (open_w can_create output_file) (\<lambda>file. file_write os_name file secret_value)"

text \<open>
  Reading a file back the way \<open>test_write_to_file\<close> (test_main.py) does, in text mode
  as UTF-8: the bytes are decoded, and \<open>CR LF\<close> and a lone \<open>CR\<close> each become a line feed.
\<close>

definition continuation :: "nat \<Rightarrow> bool" where
  "continuation b = (0x80 \<le> b \<and> b < 0xC0)"

fun utf8_decode :: "nat list \<Rightarrow> pystr option" where
  "utf8_decode [] = Some []"
| "utf8_decode (b0 # bs) =
     (if b0 < 0x80 then map_option ((#) b0) (utf8_decode bs)
      else if 0xC2 \<le> b0 \<and> b0 < 0xE0 then
        (case bs of
           b1 # r \<Rightarrow>
             if continuation b1
             then map_option ((#) ((b0 - 0xC0) * 64 + (b1 - 0x80))) (utf8_decode r)
             else None
         | _ \<Rightarrow> None)
      else if 0xE0 \<le> b0 \<and> b0 < 0xF0 then
        (case bs of
           b1 # b2 # r \<Rightarrow>
             (let cp = (b0 - 0xE0) * 4096 + (b1 - 0x80) * 64 + (b2 - 0x80)
              in if continuation b1 \<and> continuation b2 \<and> 0x800 \<le> cp \<and> \<not> is_surrogate cp
                 then map_option ((#) cp) (utf8_decode r) else None)
         | _ \<Rightarrow> None)
      else if 0xF0 \<le> b0 \<and> b0 < 0xF5 then
        (case bs of
           b1 # b2 # b3 # r \<Rightarrow>
             (let cp = (b0 - 0xF0) * 262144 + (b1 - 0x80) * 4096 + (b2 - 0x80) * 64
                       + (b3 - 0x80)
              in if continuation b1 \<and> continuation b2 \<and> continuation b3
                    \<and> 0x10000 \<le> cp \<and> cp < 0x110000
                 then map_option ((#) cp) (utf8_decode r) else None)
         | _ \<Rightarrow> None)
      else None)"

fun universal_newlines :: "pystr \<Rightarrow> pystr" where
  "universal_newlines [] = []"
| "universal_newlines (cp # cps) =
     (if cp = 13 then
        (case cps of
           [] \<Rightarrow> [10]
         | next_cp # after \<Rightarrow>
             if next_cp = 10 then 10 # universal_newlines after
             else 10 # universal_newlines cps)
      else cp # universal_newlines cps)"

definition read_text :: "world \<Rightarrow> string \<Rightarrow> exn + pystr" where
  "read_text w path =
     (case files w path of
        None \<Rightarrow> Inl (OSError path)
      | Some bytes \<Rightarrow>
          (case utf8_decode (map of_char bytes) of
             None \<Rightarrow> Inl UnicodeDecodeError
           | Some cps \<Rightarrow> Inr (universal_newlines cps)))"

subsection \<open>Built-ins that main relies on\<close>

text \<open>
  \<open>int(s)\<close> on ASCII text: white space around, one optional sign, then digits, where
  single underscores may separate digits. (The interpreter's configurable limit on the
  number of digits is not modelled.)
\<close>

definition py_isspace :: "char \<Rightarrow> bool" where
  "py_isspace c = (c \<in> set [CHR 0x09, CHR 0x0A, CHR 0x0B, CHR 0x0C, CHR 0x0D, CHR 0x20])"

definition is_digit :: "char \<Rightarrow> bool" where
  "is_digit c = (c \<in> set ''0123456789'')"

definition digit_val :: "char \<Rightarrow> nat" where
  "digit_val c = of_char c - 48"

fun double_underscore :: "string \<Rightarrow> bool" where
  "double_underscore (a # b # cs) =
     ((a = CHR ''_'' \<and> b = CHR ''_'') \<or> double_underscore (b # cs))"
| "double_underscore _ = False"

definition decimal :: "string \<Rightarrow> nat" where
  "decimal ds = foldl (\<lambda>acc c. 10 * acc + digit_val c) 0 ds"

definition py_int :: "string \<Rightarrow> exn + int" where
  "py_int s =
     (let s1 = dropWhile py_isspace s;
          negative = (s1 \<noteq> [] \<and> hd s1 = CHR ''-'');
          s2 = (if s1 \<noteq> [] \<and> (hd s1 = CHR ''+'' \<or> hd s1 = CHR ''-'') then tl s1 else s1);
          body = takeWhile (\<lambda>c. is_digit c \<or> c = CHR ''_'') s2;
          rest = dropWhile (\<lambda>c. is_digit c \<or> c = CHR ''_'') s2
      in if body = [] \<or> hd body = CHR ''_'' \<or> last body = CHR ''_''
            \<or> double_underscore body \<or> \<not> list_all py_isspace rest
         then Inl ValueError
         else Inr ((if negative then - 1 else 1) * int (decimal (filter is_digit body))))"

text \<open>\<open>xs[i]\<close>: a negative index counts from the end; out of range raises.\<close>

definition py_getitem :: "'a list \<Rightarrow> int \<Rightarrow> exn + 'a" where
  "py_getitem xs i =
     (if 0 \<le> i \<and> i < int (length xs) then Inr (xs ! nat i)
      else if i < 0 \<and> - int (length xs) \<le> i then Inr (xs ! nat (int (length xs) + i))
      else Inl IndexError)"

text \<open>\<open>str(n)\<close> for a natural number.\<close>

fun str_nat :: "nat \<Rightarrow> string" where
  "str_nat n =
     (if n < 10 then [''0123456789'' ! n]
      else str_nat (n div 10) @ [''0123456789'' ! (n mod 10)])"

declare str_nat.simps [simp del]

text \<open>Truth value of an optional string: \<open>None\<close> and the empty string are false.\<close>

definition truthy :: "string option \<Rightarrow> bool" where
  "truthy v = (case v of None \<Rightarrow> False | Some s \<Rightarrow> s \<noteq> [])"

subsection \<open>main (lines 82 to 125)\<close>

text \<open>
  What the surroundings of one run answer: the environment variable, the platform, the
  parsed command line (\<open>args.output\<close>), the SDK, which paths can be created, and the JSON
  library (\<open>json.loads\<close>, and \<open>json.dumps\<close> with its \<open>indent\<close>) over its own type \<open>'j\<close> of
  parsed values.
\<close>

record 'j environ =
  getenv_AWS_DEFAULT_REGION :: "string option"
  os_name :: string
  args_output :: "string option"
  session_client :: boto
  can_create :: "string \<Rightarrow> bool"
  json_loads :: "string \<Rightarrow> exn + 'j"
  json_dumps :: "'j \<Rightarrow> nat \<Rightarrow> string"

text \<open>Lines 93 to 96.\<close>

definition resolve_region :: "'j environ \<Rightarrow> string io" where
  "resolve_region env =
     (if \<not> truthy (getenv_AWS_DEFAULT_REGION env) then py_input ''Enter the Region Name: ''
      else returnE (the (getenv_AWS_DEFAULT_REGION env)))"

text \<open>Lines 99 to 101.\<close>

fun print_all :: "string list \<Rightarrow> unit io" where
  "print_all [] = returnE ()"
| "print_all (line # later) = bindE (py_print line) (\<lambda>_. print_all later)"

definition show_menu :: "string list \<Rightarrow> unit io" where
  "show_menu secret_names =
     bindE (py_print ''Available Secrets:'') (\<lambda>_.
     print_all (map (\<lambda>(idx, name). str_nat (idx + 1) @ ''. '' @ name)
                    (enumerate 0 secret_names)))"

text \<open>Lines 103 and 104.\<close>

definition select_secret :: "string list \<Rightarrow> string io" where
  "select_secret secret_names =
     bindE (py_input ''Enter the number of the secret you want to fetch: '') (\<lambda>line.
     bindE (liftE (py_int line)) (\<lambda>n.
     liftE (py_getitem secret_names (n - 1))))"

text \<open>Lines 93 to 101: everything before the selection prompt.\<close>

definition menu_stage :: "'j environ \<Rightarrow> (string \<times> string list) io" where
  "menu_stage env =
     bindE (resolve_region env) (\<lambda>region_name.
     bindE (list_all_secrets (session_client env) region_name) (\<lambda>secret_names.
     bindE (show_menu secret_names) (\<lambda>_.
     returnE (region_name, secret_names))))"

text \<open>Lines 93 to 106: everything up to and including the fetch.\<close>

definition fetch_stage :: "'j environ \<Rightarrow> string option io" where
  "fetch_stage env =
     bindE (resolve_region env) (\<lambda>region_name.
     bindE (list_all_secrets (session_client env) region_name) (\<lambda>secret_names.
     bindE (show_menu secret_names) (\<lambda>_.
     bindE (select_secret secret_names) (\<lambda>secret_name.
     fetch_secret (session_client env) secret_name region_name))))"

text \<open>Lines 113 to 120.\<close>

definition display :: "'j environ \<Rightarrow> string \<Rightarrow> unit io" where
  "display env secret_value =
     (case json_loads env secret_value of
        Inr secret_dict \<Rightarrow>
          bindE (py_print (NL @ ''Fetched Secret Value:'')) (\<lambda>_.
          py_print (json_dumps env secret_dict 4))
      | Inl e \<Rightarrow>
          if e = JSONDecodeError
          then bindE (py_print (NL @ ''Fetched Secret Value:'')) (\<lambda>_. py_print secret_value)
          else raiseE e)"

text \<open>Lines 108 to 125.\<close>

definition deliver :: "'j environ \<Rightarrow> string option \<Rightarrow> unit io" where
  "deliver env secret_value =
     (case secret_value of
        Some v \<Rightarrow>
          if truthy (args_output env)
          then bindE (write_to_file (can_create env) (os_name env) (code_points v)
                      (the (args_output env))) (\<lambda>_.
               py_print (''Secret value fetched and stored in '' @ the (args_output env)
                         @ '' successfully.''))
          else bindE (display env v) (\<lambda>_.
               bindE (py_input (NL @ ''Press Enter to clear the screen...'')) (\<lambda>_.
               clear_screen (os_name env)))
      | None \<Rightarrow> py_print ''Exiting program.'')"

definition main :: "'j environ \<Rightarrow> unit io" where
  "main env = bindE (fetch_stage env) (deliver env)"

subsection \<open>Reading a run\<close>


text \<open>The world after \<open>input(prompt)\<close> has read a line.\<close>

definition answered :: "string \<Rightarrow> world \<Rightarrow> world" where
  "answered prompt w = w\<lparr>stdin := tl (stdin w), events := events w @ [Prompt prompt]\<rparr>"

text \<open>
  \<open>emits_only Q m\<close>: whatever the start and the outcome, \<open>m\<close> only adds events to
  the record, and each event it adds satisfies \<open>Q\<close>.
\<close>

definition emits_only :: "(event \<Rightarrow> bool) \<Rightarrow> 'a io \<Rightarrow> bool" where
  "emits_only Q m =
     (\<forall>w. \<exists>new. events (snd (m w)) = events w @ new \<and> list_all Q new)"

text \<open>\<open>keeps_files m\<close>: \<open>m\<close> creates and changes no file.\<close>

definition keeps_files :: "'a io \<Rightarrow> bool" where
  "keeps_files m = (\<forall>w. files (snd (m w)) = files w)"

definition is_clear :: "event \<Rightarrow> bool" where
  "is_clear ev = (case ev of OsSystem _ \<Rightarrow> True | _ \<Rightarrow> False)"

text \<open>
  The pages of a listing that arrives whole, and the names a page carries: \<open>page_has_names
  p ns\<close> when the entries of \<open>p\<close> are named \<open>ns\<close>, in this order.
\<close>

definition all_pages :: "page list \<Rightarrow> page_stream" where
  "all_pages ps = foldr NextPage ps NoMorePages"

definition page_has_names :: "page \<Rightarrow> string list \<Rightarrow> bool" where
  "page_has_names p ns =
     (case p ''SecretList'' of
        None \<Rightarrow> False
      | Some entries \<Rightarrow> map (\<lambda>e. e ''Name'') entries = map Some ns)"

subsection \<open>An example service and run\<close>

definition dquote :: string where
  "dquote = [CHR 0x22]"

text \<open>The text \<open>{"k":"v"}\<close>, and a stand-in for the JSON library on flat objects.\<close>

definition example_json_text :: string where
  "example_json_text =
     ''{'' @ dquote @ ''k'' @ dquote @ '':'' @ dquote @ ''v'' @ dquote @ ''}''"

type_synonym flat_json = "(string \<times> string) list"

text \<open>A text of 1100 opening brackets: nested too deeply for the parser.\<close>

definition deep_text :: string where
  "deep_text = replicate 1100 CHR ''[''"

definition example_loads :: "string \<Rightarrow> exn + flat_json" where
  "example_loads s =
     (if s = example_json_text then Inr [(''k'', ''v'')]
      else if length s = 1100 \<and> list_all (\<lambda>c. c = CHR ''['') s then Inl RecursionError
      else Inl JSONDecodeError)"

fun example_members :: "nat \<Rightarrow> flat_json \<Rightarrow> string" where
  "example_members indent [] = []"
| "example_members indent [(k, v)] =
     NL @ replicate indent CHR '' '' @ dquote @ k @ dquote @ '': '' @ dquote @ v @ dquote"
| "example_members indent ((k, v) # later) =
     NL @ replicate indent CHR '' '' @ dquote @ k @ dquote @ '': '' @ dquote @ v @ dquote
     @ '','' @ example_members indent later"

definition example_dumps :: "flat_json \<Rightarrow> nat \<Rightarrow> string" where
  "example_dumps obj indent =
     (if obj = [] then ''{}'' else ''{'' @ example_members indent obj @ NL @ ''}'')"

definition example_client :: client where
  "example_client =
     \<lparr>get_secret_value = (\<lambda>name.
        if name = ''alpha'' then Inr [''Name'' \<mapsto> ''alpha'', ''SecretString'' \<mapsto> ''plain-text-secret'']
        else if name = ''beta'' then Inr [''Name'' \<mapsto> ''beta'', ''SecretString'' \<mapsto> example_json_text]
        else if name = ''blob'' then Inr [''Name'' \<mapsto> ''blob'']
        else if name = ''locked'' then Inl (ClientError ''AccessDeniedException'' ''denied'')
        else Inl (ClientError ''ResourceNotFoundException'' ''not found'')),
      paginate =
        NextPage [''SecretList'' \<mapsto> [ [''Name'' \<mapsto> ''alpha''], [''Name'' \<mapsto> ''beta''] ] ]
       (NextPage [''SecretList'' \<mapsto> [ [''Name'' \<mapsto> ''blob''], [''Name'' \<mapsto> ''gone''],
                                          [''Name'' \<mapsto> ''locked''] ] ]
        NoMorePages)\<rparr>"

definition empty_client :: client where
  "empty_client =
     \<lparr>get_secret_value = (\<lambda>name. Inl (ClientError ''ResourceNotFoundException'' ''not found'')),
      paginate = NextPage [''SecretList'' \<mapsto> [] ] NoMorePages\<rparr>"

definition deep_client :: client where
  "deep_client =
     \<lparr>get_secret_value = (\<lambda>name.
        if name = ''nested'' then Inr [''Name'' \<mapsto> ''nested'', ''SecretString'' \<mapsto> deep_text]
        else Inl (ClientError ''ResourceNotFoundException'' ''not found'')),
      paginate = NextPage [''SecretList'' \<mapsto> [ [''Name'' \<mapsto> ''nested''] ] ] NoMorePages\<rparr>"

definition example_boto :: boto where
  "example_boto region_name =
     (if region_name = ''us-west-2'' then Inr example_client
      else if region_name = ''eu-west-1'' then Inr empty_client
      else if region_name = ''ap-south-1'' then Inr deep_client
      else Inl (SdkError ''EndpointConnectionError''))"

definition example_env :: "string option \<Rightarrow> string option \<Rightarrow> flat_json environ" where
  "example_env region output =
     \<lparr>getenv_AWS_DEFAULT_REGION = region, os_name = ''posix'', args_output = output,
      session_client = example_boto, can_create = (\<lambda>path. path = ''out.txt''),
      json_loads = example_loads, json_dumps = example_dumps\<rparr>"

definition example_world :: "string list \<Rightarrow> world" where
  "example_world typed = \<lparr>stdin = typed, events = [], files = [''old.txt'' \<mapsto> ''old'']\<rparr>"

section \<open>Auxiliary lemmas\<close>

lemmas io_defs = bindE_def returnE_def raiseE_def liftE_def emit_def py_print_def

lemma bindE_Inr: "m w = (Inr x, w') \<Longrightarrow> bindE m f w = f x w'"
  by (simp add: bindE_def)

lemma bindE_Inl: "m w = (Inl e, w') \<Longrightarrow> bindE m f w = (Inl e, w')"
  by (simp add: bindE_def)

lemma print_all_eq: "print_all ls w = (Inr (), w\<lparr>events := events w @ map Print ls\<rparr>)"
  by (induction ls arbitrary: w) (simp_all add: io_defs)

lemma show_menu_eq:
  "show_menu names w =
     (Inr (), w\<lparr>events := events w @ Print ''Available Secrets:'' #
        map Print (map (\<lambda>(idx, name). str_nat (idx + 1) @ ''. '' @ name) (enumerate 0 names))\<rparr>)"
  by (simp add: show_menu_def print_all_eq io_defs)

lemma emits_only_bindE:
  assumes "emits_only Q m" and "\<And>x. emits_only Q (f x)"
  shows "emits_only Q (bindE m f)"
  unfolding emits_only_def
proof
  fix w
  obtain r w1 where mw: "m w = (r, w1)" by (cases "m w")
  from assms(1) obtain new1 where n1: "events w1 = events w @ new1" "list_all Q new1"
    unfolding emits_only_def using mw by (metis snd_conv)
  show "\<exists>new. events (snd (bindE m f w)) = events w @ new \<and> list_all Q new"
  proof (cases r)
    case (Inl e)
    then show ?thesis using mw n1 by (simp add: bindE_def)
  next
    case (Inr x)
    from assms(2)[of x] obtain new2 where
      n2: "events (snd (f x w1)) = events w1 @ new2" "list_all Q new2"
      unfolding emits_only_def by blast
    have "events (snd (bindE m f w)) = events w @ (new1 @ new2)"
      using Inr mw n1 n2 by (simp add: bindE_def)
    moreover have "list_all Q (new1 @ new2)" using n1 n2 by simp
    ultimately show ?thesis by blast
  qed
qed

lemma emits_only_returnE: "emits_only Q (returnE x)"
  by (simp add: emits_only_def returnE_def)

lemma emits_only_raiseE: "emits_only Q (raiseE e)"
  by (simp add: emits_only_def raiseE_def)

lemma emits_only_liftE: "emits_only Q (liftE r)"
  by (simp add: emits_only_def liftE_def)

lemma emits_only_emit: "Q ev \<Longrightarrow> emits_only Q (emit ev)"
  by (simp add: emits_only_def emit_def)

lemma emits_only_print: "Q (Print s) \<Longrightarrow> emits_only Q (py_print s)"
  by (simp add: py_print_def emits_only_emit)

lemma emits_only_input: "Q (Prompt p) \<Longrightarrow> emits_only Q (py_input p)"
  by (simp add: emits_only_def py_input_def split: list.splits)

lemma emits_only_print_all: "(\<And>s. Q (Print s)) \<Longrightarrow> emits_only Q (print_all ls)"
  by (simp add: emits_only_def print_all_eq list_all_iff)

lemma emits_only_show_menu: "(\<And>s. Q (Print s)) \<Longrightarrow> emits_only Q (show_menu names)"
  by (simp add: show_menu_def emits_only_bindE emits_only_print emits_only_print_all)

lemma emits_only_list_all_secrets:
  "Q (AwsClient r) \<Longrightarrow> emits_only Q (list_all_secrets boto r)"
  by (simp add: list_all_secrets_def emits_only_bindE emits_only_emit emits_only_liftE)

lemma emits_only_fetch_secret:
  "Q (AwsClient r) \<Longrightarrow> Q (GetSecretValue n) \<Longrightarrow> (\<And>s. Q (Print s)) \<Longrightarrow>
   emits_only Q (fetch_secret boto n r)"
  unfolding fetch_secret_def
  by (intro emits_only_bindE emits_only_emit emits_only_liftE)
     (auto intro!: emits_only_bindE emits_only_print emits_only_returnE emits_only_raiseE
           split: sum.splits option.splits exn.splits)

lemma emits_only_select_secret:
  "Q (Prompt ''Enter the number of the secret you want to fetch: '') \<Longrightarrow>
   emits_only Q (select_secret names)"
  by (simp add: select_secret_def emits_only_bindE emits_only_input emits_only_liftE)

lemma recompose: "(q::nat) div 64 * (64 * k) + q mod 64 * k = q * k"
proof -
  have "q * k = (q div 64 * 64 + q mod 64) * k" by simp
  also have "\<dots> = q div 64 * (64 * k) + q mod 64 * k"
    by (simp only: add_mult_distrib mult.assoc)
  finally show ?thesis by simp
qed

lemma split2: "(cp::nat) div 64 * 64 + cp mod 64 = cp"
  by simp

lemma split3: "(cp::nat) div 4096 * 4096 + cp div 64 mod 64 * 64 + cp mod 64 = cp"
proof -
  have "cp div 4096 = cp div 64 div 64" by (simp add: div_mult2_eq)
  then have "cp div 4096 * 4096 + cp div 64 mod 64 * 64 = cp div 64 * 64"
    using recompose [of "cp div 64" 64] by simp
  then show ?thesis by simp
qed

lemma split4:
  "(cp::nat) div 262144 * 262144 + cp div 4096 mod 64 * 4096 + cp div 64 mod 64 * 64
     + cp mod 64 = cp"
proof -
  have "cp div 262144 = cp div 4096 div 64" by (simp add: div_mult2_eq)
  then have "cp div 262144 * 262144 + cp div 4096 mod 64 * 4096 = cp div 4096 * 4096"
    using recompose [of "cp div 4096" 4096] by simp
  then show ?thesis using split3 [of cp] by simp
qed

lemma lead2: "0x80 \<le> (cp::nat) \<Longrightarrow> cp < 0x800 \<Longrightarrow> 2 \<le> cp div 64 \<and> cp div 64 < 32"
  by (simp add: less_mult_imp_div_less le_div_geq div_greater_zero_iff Suc_le_eq)

lemma lead3: "(cp::nat) < 0x10000 \<Longrightarrow> cp div 4096 < 16"
  by (simp add: less_mult_imp_div_less)

lemma lead4: "(cp::nat) < 0x110000 \<Longrightarrow> cp div 262144 < 5"
  by (simp add: less_mult_imp_div_less)

lemma decode_cp:
  assumes "encodable cp"
  shows "utf8_decode (utf8_cp cp @ bs) = map_option ((#) cp) (utf8_decode bs)"
proof -
  consider "cp < 0x80" | "0x80 \<le> cp" "cp < 0x800" | "0x800 \<le> cp" "cp < 0x10000"
    | "0x10000 \<le> cp" "cp < 0x110000"
    using assms by (auto simp: encodable_def) linarith
  then show ?thesis
  proof cases
    case 1
    then show ?thesis by (simp add: utf8_cp_def)
  next
    case 2
    then show ?thesis using lead2 [of cp] split2 [of cp]
      by (simp add: utf8_cp_def continuation_def div_less_iff_less_mult)
  next
    case 3
    then show ?thesis using lead3 [of cp] split3 [of cp] assms
      by (simp add: utf8_cp_def continuation_def encodable_def div_less_iff_less_mult)
  next
    case 4
    then show ?thesis using lead4 [of cp] split4 [of cp]
      by (simp add: utf8_cp_def continuation_def div_less_iff_less_mult)
  qed
qed

lemma utf8_roundtrip: "list_all encodable cps \<Longrightarrow> utf8_decode (utf8 cps) = Some cps"
  by (induction cps) (simp_all add: utf8_def decode_cp)

lemma translate_posix: "translate_newlines [10] cps = cps"
  by (induction cps) (simp_all add: translate_newlines_def)

lemma universal_crlf:
  "13 \<notin> set cps \<Longrightarrow> universal_newlines (translate_newlines [13, 10] cps) = cps"
  by (induction cps) (auto simp: translate_newlines_def)

lemma universal_translate:
  "13 \<notin> set cps \<Longrightarrow> universal_newlines (translate_newlines (linesep os) cps) = cps"
proof (cases "os = ''nt''")
  case True
  assume "13 \<notin> set cps"
  then show ?thesis using True by (simp add: linesep_def universal_crlf)
next
  case False
  assume "13 \<notin> set cps"
  then have "universal_newlines cps = cps" by (induction cps) auto
  then show ?thesis using False by (simp add: linesep_def translate_posix)
qed

lemma encodable_translate:
  "list_all encodable (translate_newlines (linesep os) cps) = list_all encodable cps"
  by (induction cps)
     (auto simp: translate_newlines_def linesep_def encodable_def is_surrogate_def)

lemma of_char_small: "of_char (c::char) < (256::nat)"
  by (metis of_char_mod_256 mod_less_divisor zero_less_numeral)

lemma encodable_code_points: "list_all encodable (code_points v)"
proof -
  have "encodable (of_char c)" for c :: char
    using of_char_small [of c] unfolding encodable_def is_surrogate_def by linarith
  then show ?thesis by (simp add: code_points_def list_all_iff)
qed

lemma bytes_small: "encodable cp \<Longrightarrow> b \<in> set (utf8_cp cp) \<Longrightarrow> b < 256"
  by (auto simp: utf8_cp_def encodable_def div_less_iff_less_mult split: if_splits)

lemma of_char_utf8_cp:
  "encodable cp \<Longrightarrow> map of_char (map char_of (utf8_cp cp) :: string) = utf8_cp cp"
proof -
  assume "encodable cp"
  then have "\<And>b. b \<in> set (utf8_cp cp) \<Longrightarrow> of_char (char_of b :: char) = b"
    using bytes_small [of cp] by simp
  then show ?thesis by (simp add: map_idI)
qed

lemma of_char_utf8:
  "list_all encodable cps \<Longrightarrow> map of_char (map char_of (utf8 cps) :: string) = utf8 cps"
proof (induction cps)
  case Nil
  then show ?case by (simp add: utf8_def)
next
  case (Cons cp cps)
  then show ?case using of_char_utf8_cp [of cp] by (simp add: utf8_def)
qed

lemma of_char_utf8_comp:
  "list_all encodable cps \<Longrightarrow>
   map (of_char \<circ> (char_of :: nat \<Rightarrow> char)) (utf8 cps) = utf8 cps"
  using of_char_utf8 [of cps] by simp

lemma ascii_code_point: "\<not> digit7 c \<Longrightarrow> of_char c < (128::nat)"
  by (cases c) simp

lemma ascii_bytes:
  "\<forall>c \<in> set v. \<not> digit7 c \<Longrightarrow> map char_of (utf8 (code_points v)) = v"
  by (induction v) (simp_all add: utf8_def code_points_def utf8_cp_def ascii_code_point)

lemma write_to_file_eq:
  "write_to_file creatable os cps path w =
     (if creatable path
      then if list_all encodable cps
           then (Inr (), w\<lparr>files := (files w)(path \<mapsto>
                   map char_of (utf8 (translate_newlines (linesep os) cps)))\<rparr>)
           else (Inl UnicodeEncodeError, w\<lparr>files := (files w)(path \<mapsto> [])\<rparr>)
      else (Inl (OSError path), w))"
  by (simp add: write_to_file_def open_w_def file_write_def bindE_def encodable_translate)

lemma example_loads_json: "example_loads example_json_text = Inr [(''k'', ''v'')]"
  by (simp add: example_loads_def)

lemma example_loads_plain: "example_loads ''plain-text-secret'' = Inl JSONDecodeError"
  by (simp add: example_loads_def example_json_text_def dquote_def)

lemma example_loads_deep: "example_loads deep_text = Inl RecursionError"
proof -
  have "length deep_text = 1100" by (simp add: deep_text_def)
  moreover have "length example_json_text = 9" by (simp add: example_json_text_def dquote_def)
  ultimately have "deep_text \<noteq> example_json_text" by auto
  moreover have "list_all (\<lambda>c. c = CHR ''['') deep_text"
    by (simp add: deep_text_def list_all_iff)
  ultimately show ?thesis using \<open>length deep_text = 1100\<close> by (simp add: example_loads_def)
qed

lemma emits_only_write_to_file: "emits_only Q (write_to_file cc os v p)"
  by (simp add: emits_only_def write_to_file_eq)

lemma emits_only_clear_screen: "(\<And>c. Q (OsSystem c)) \<Longrightarrow> emits_only Q (clear_screen os)"
  by (simp add: clear_screen_def emits_only_emit)

lemma emits_only_display: "(\<And>s. Q (Print s)) \<Longrightarrow> emits_only Q (display env v)"
  unfolding display_def
  by (auto intro!: emits_only_bindE emits_only_print emits_only_raiseE split: sum.splits)

lemma emits_only_deliver:
  assumes "\<And>s. Q (Print s)" and "Q (Prompt (NL @ ''Press Enter to clear the screen...''))"
    and "\<And>c. Q (OsSystem c)"
  shows "emits_only Q (deliver env sv)"
  unfolding deliver_def using assms
  by (auto intro!: emits_only_bindE emits_only_print emits_only_write_to_file
        emits_only_display emits_only_input emits_only_clear_screen split: option.splits)


lemma emits_only_resolve_region:
  "Q (Prompt ''Enter the Region Name: '') \<Longrightarrow> emits_only Q (resolve_region env)"
  by (simp add: resolve_region_def emits_only_input emits_only_returnE)

lemma emits_only_fetch_stage:
  assumes "\<And>s. Q (Print s)" and "\<And>r. Q (AwsClient r)" and "\<And>n. Q (GetSecretValue n)"
    and "Q (Prompt ''Enter the Region Name: '')"
    and "Q (Prompt ''Enter the number of the secret you want to fetch: '')"
  shows "emits_only Q (fetch_stage env)"
  unfolding fetch_stage_def using assms
  by (intro emits_only_bindE emits_only_resolve_region emits_only_list_all_secrets
        emits_only_show_menu emits_only_select_secret emits_only_fetch_secret)

lemma emits_onlyD:
  "emits_only Q m \<Longrightarrow> \<exists>new. events (snd (m w)) = events w @ new \<and> list_all Q new"
  by (simp add: emits_only_def)

lemma keeps_files_bindE:
  assumes "keeps_files m" and "\<And>x. keeps_files (f x)"
  shows "keeps_files (bindE m f)"
  unfolding keeps_files_def
proof
  fix w
  obtain r w1 where mw: "m w = (r, w1)" by (cases "m w")
  then have f1: "files w1 = files w"
    using assms(1) unfolding keeps_files_def by (metis snd_conv)
  show "files (snd (bindE m f w)) = files w"
  proof (cases r)
    case (Inl e)
    then show ?thesis using mw f1 by (simp add: bindE_def)
  next
    case (Inr x)
    then show ?thesis using mw f1 assms(2)[of x] by (simp add: bindE_def keeps_files_def)
  qed
qed

lemma keeps_files_basic:
  "keeps_files (returnE x)" "keeps_files (raiseE e)" "keeps_files (liftE r)"
  "keeps_files (emit ev)" "keeps_files (py_print s)" "keeps_files (py_input p)"
  by (simp_all add: keeps_files_def io_defs py_input_def split: list.splits)

lemma keeps_files_show_menu: "keeps_files (show_menu names)"
  by (simp add: keeps_files_def show_menu_eq)

lemma keeps_files_list_all_secrets: "keeps_files (list_all_secrets boto r)"
  by (simp add: list_all_secrets_def keeps_files_bindE keeps_files_basic)

lemma keeps_files_fetch_secret: "keeps_files (fetch_secret boto n r)"
  unfolding fetch_secret_def
  by (intro keeps_files_bindE keeps_files_basic)
     (auto intro!: keeps_files_bindE keeps_files_basic split: sum.splits option.splits exn.splits)

lemma keeps_files_select_secret: "keeps_files (select_secret names)"
  by (simp add: select_secret_def keeps_files_bindE keeps_files_basic)

lemma keeps_files_resolve_region: "keeps_files (resolve_region env)"
  by (simp add: resolve_region_def keeps_files_basic)

lemma keeps_files_fetch_stage: "keeps_files (fetch_stage env)"
  unfolding fetch_stage_def
  by (intro keeps_files_bindE keeps_files_resolve_region keeps_files_list_all_secrets
        keeps_files_show_menu keeps_files_select_secret keeps_files_fetch_secret)

lemma keeps_filesD: "keeps_files m \<Longrightarrow> m w = (r, w') \<Longrightarrow> files w' = files w"
  unfolding keeps_files_def by (metis snd_conv)

lemma extend_pages_all:
  "list_all2 (\<lambda>p es. p ''SecretList'' = Some es) ps ess \<Longrightarrow>
   extend_pages (all_pages ps) acc = Inr (acc @ concat ess)"
proof (induction ps arbitrary: ess acc)
  case Nil
  then show ?case by (simp add: all_pages_def)
next
  case (Cons p ps)
  then obtain es ess' where "ess = es # ess'" "p ''SecretList'' = Some es"
    "list_all2 (\<lambda>p es. p ''SecretList'' = Some es) ps ess'"
    by (auto simp: list_all2_Cons1)
  then show ?case using Cons.IH [of ess' "acc @ es"] by (simp add: all_pages_def)
qed

lemma names_of_named:
  "map (\<lambda>e. e ''Name'') es = map Some ns \<Longrightarrow> names_of es = Inr ns"
proof (induction es arbitrary: ns)
  case Nil
  then show ?case by simp
next
  case (Cons e es)
  then obtain n ns' where "ns = n # ns'" "e ''Name'' = Some n"
    "map (\<lambda>e. e ''Name'') es = map Some ns'"
    by (cases ns) auto
  then show ?case using Cons.IH [of ns'] by simp
qed

lemma pages_entries:
  "list_all2 page_has_names ps nss \<Longrightarrow>
   \<exists>ess. list_all2 (\<lambda>p es. p ''SecretList'' = Some es) ps ess
       \<and> map (\<lambda>e. e ''Name'') (concat ess) = map Some (concat nss)"
proof (induction ps nss rule: list_all2_induct)
  case Nil
  then show ?case by simp
next
  case (Cons p ps ns nss)
  from Cons.hyps(1) obtain es where es: "p ''SecretList'' = Some es"
    "map (\<lambda>e. e ''Name'') es = map Some ns"
    by (auto simp: page_has_names_def split: option.splits)
  from Cons.IH obtain ess where ess: "list_all2 (\<lambda>p es. p ''SecretList'' = Some es) ps ess"
    "map (\<lambda>e. e ''Name'') (concat ess) = map Some (concat nss)"
    by blast
  have "list_all2 (\<lambda>p es. p ''SecretList'' = Some es) (p # ps) (es # ess)"
    using es ess by simp
  moreover have "map (\<lambda>e. e ''Name'') (concat (es # ess)) = map Some (concat (ns # nss))"
    using es ess by simp
  ultimately show ?case by blast
qed

lemma bindE_assoc: "bindE (bindE m f) g = bindE m (\<lambda>x. bindE (f x) g)"
  by (rule ext) (simp add: bindE_def split: prod.splits sum.splits)

lemma main_from_region:
  assumes "resolve_region env w = (Inr r, w1)"
  shows "main env w =
     bindE (emit (AwsClient r)) (\<lambda>_.
       bindE (bindE (liftE (session_client env r)) (\<lambda>client.
              bindE (liftE (extend_pages (paginate client) [])) (\<lambda>secrets.
              liftE (names_of secrets)))) (\<lambda>secret_names.
       bindE (bindE (show_menu secret_names) (\<lambda>_.
              bindE (select_secret secret_names) (\<lambda>secret_name.
              fetch_secret (session_client env) secret_name r))) (deliver env))) w1"
  using assms
  by (simp add: main_def fetch_stage_def list_all_secrets_def bindE_assoc bindE_Inr)

lemma first_event:
  assumes "emits_only Q (f ())"
  shows "\<exists>new. events (snd (bindE (emit ev) f w)) = events w @ ev # new \<and> list_all Q new"
proof -
  from emits_onlyD [OF assms, of "w\<lparr>events := events w @ [ev]\<rparr>"] obtain new where
    "events (snd (f () (w\<lparr>events := events w @ [ev]\<rparr>))) = (events w @ [ev]) @ new"
    "list_all Q new"
    by auto
  then show ?thesis by (auto simp: bindE_def emit_def)
qed

lemma after_region:
  assumes "resolve_region env w = (Inr r, w1)"
    and "\<And>s. Q (Print s)" and "\<And>c. Q (OsSystem c)" and "\<And>n. Q (GetSecretValue n)"
    and "Q (AwsClient r)"
    and "Q (Prompt ''Enter the number of the secret you want to fetch: '')"
    and "Q (Prompt (NL @ ''Press Enter to clear the screen...''))"
  shows "\<exists>new. events (snd (main env w)) = events w1 @ AwsClient r # new \<and> list_all Q new"
  unfolding main_from_region [OF assms(1)]
  by (rule first_event)
     (intro emits_only_bindE emits_only_liftE emits_only_show_menu emits_only_select_secret
        emits_only_fetch_secret emits_only_deliver assms)

lemma bindE_returnE: "bindE (returnE x) f = f x"
  by (rule ext) (simp add: bindE_def returnE_def)

lemma empty_pages_names:
  "\<forall>p \<in> set ps. p ''SecretList'' = Some [] \<Longrightarrow>
   list_all2 page_has_names ps (map (\<lambda>_. []) ps)"
  by (induction ps) (simp_all add: page_has_names_def)

lemma fetch_stage_menu:
  "fetch_stage env =
     bindE (menu_stage env) (\<lambda>(region_name, secret_names).
       bindE (select_secret secret_names) (\<lambda>secret_name.
         fetch_secret (session_client env) secret_name region_name))"
  by (simp add: fetch_stage_def menu_stage_def bindE_assoc bindE_returnE)

lemma py_int_error: "py_int s = Inl e \<Longrightarrow> e = ValueError"
  by (auto simp: py_int_def Let_def split: if_splits)

lemma select_secret_eq:
  assumes "stdin w = line # rest"
  shows "select_secret names w =
     (case py_int line of
        Inl e \<Rightarrow> Inl e
      | Inr n \<Rightarrow> py_getitem names (n - 1),
      w\<lparr>stdin := rest,
        events := events w @ [Prompt ''Enter the number of the secret you want to fetch: '']\<rparr>)"
  using assms by (simp add: select_secret_def py_input_def io_defs split: sum.splits)

lemmas example_defs = example_env_def example_world_def example_boto_def example_client_def
  empty_client_def deep_client_def example_loads_json example_loads_plain
  example_loads_deep example_dumps_def dquote_def squote_def NL_def

lemmas run_defs = main_def fetch_stage_def menu_stage_def resolve_region_def
  list_all_secrets_def show_menu_def print_all_eq select_secret_def fetch_secret_def
  deliver_def display_def write_to_file_eq encodable_code_points linesep_def
  translate_posix ascii_bytes clear_screen_def
  py_input_def truthy_def py_getitem_def answered_def io_defs str_nat.simps


lemmas int_defs = py_int_def py_isspace_def is_digit_def decimal_def digit_val_def Let_def

lemma lister_concat:
  assumes "boto region_name = Inr c"
    and "paginate c = all_pages ps"
    and "list_all2 page_has_names ps nss"
  shows "list_all_secrets boto region_name w =
           (Inr (concat nss), w\<lparr>events := events w @ [AwsClient region_name]\<rparr>)"
proof -
  from pages_entries [OF assms(3)] obtain ess where
    ess: "list_all2 (\<lambda>p es. p ''SecretList'' = Some es) ps ess"
    and names: "map (\<lambda>e. e ''Name'') (concat ess) = map Some (concat nss)"
    by blast
  have "extend_pages (paginate c) [] = Inr (concat ess)"
    using extend_pages_all [OF ess, of "[]"] assms(2) by simp
  moreover have "names_of (concat ess) = Inr (concat nss)"
    using names by (rule names_of_named)
  ultimately show ?thesis
    using assms(1) by (simp add: list_all_secrets_def io_defs)
qed

section \<open>The claims\<close>

text \<open>
  C1. Given a client for the region, \<open>fetch_secret\<close> returns the \<open>SecretString\<close> of the
  response as it is when the call succeeds, and \<open>None\<close> when the call raises a
  \<open>ClientError\<close>: for the code \<open>ResourceNotFoundException\<close> and for every other code alike,
  and the two cases differ in nothing but the line printed.
\<close>

theorem fetch_secret_result:
  assumes "boto region_name = Inr c"
  shows "(get_secret_value c secret_name = Inr response \<longrightarrow>
            response ''SecretString'' = Some v \<longrightarrow>
            fetch_secret boto secret_name region_name w =
              (Inr (Some v),
               w\<lparr>events := events w @ [AwsClient region_name, GetSecretValue secret_name]\<rparr>))
       \<and> (get_secret_value c secret_name =
              Inl (ClientError ''ResourceNotFoundException'' str_e) \<longrightarrow>
            fetch_secret boto secret_name region_name w =
              (Inr None,
               w\<lparr>events := events w @ [AwsClient region_name, GetSecretValue secret_name,
                  Print (''ERROR: Secret '' @ squote @ secret_name @ squote
                         @ '' not found.'')]\<rparr>))
       \<and> (get_secret_value c secret_name = Inl (ClientError code str_e) \<longrightarrow>
            code \<noteq> ''ResourceNotFoundException'' \<longrightarrow>
            fetch_secret boto secret_name region_name w =
              (Inr None,
               w\<lparr>events := events w @ [AwsClient region_name, GetSecretValue secret_name,
                  Print (''ERROR: An error occurred while fetching secret '' @ squote
                         @ secret_name @ squote @ '': '' @ str_e)]\<rparr>))"
  using assms by (simp add: fetch_secret_def io_defs)

theorem fetch_secret_result_witness:
  "example_boto ''us-west-2'' = Inr example_client
 \<and> fetch_secret example_boto ''alpha'' ''us-west-2'' (example_world []) =
     (Inr (Some ''plain-text-secret''),
      \<lparr>stdin = [], events = [AwsClient ''us-west-2'', GetSecretValue ''alpha''],
       files = [''old.txt'' \<mapsto> ''old'']\<rparr>)
 \<and> fetch_secret example_boto ''gone'' ''us-west-2'' (example_world []) =
     (Inr None,
      \<lparr>stdin = [], events = [AwsClient ''us-west-2'', GetSecretValue ''gone'',
         Print (''ERROR: Secret '' @ squote @ ''gone'' @ squote @ '' not found.'')],
       files = [''old.txt'' \<mapsto> ''old'']\<rparr>)
 \<and> fetch_secret example_boto ''locked'' ''us-west-2'' (example_world []) =
     (Inr None,
      \<lparr>stdin = [], events = [AwsClient ''us-west-2'', GetSecretValue ''locked'',
         Print (''ERROR: An error occurred while fetching secret '' @ squote @ ''locked''
                @ squote @ '': denied'')],
       files = [''old.txt'' \<mapsto> ''old'']\<rparr>)"
  using fetch_secret_result [where boto = example_boto and region_name = "''us-west-2''"
      and c = example_client and secret_name = "''alpha''"
      and response = "[''Name'' \<mapsto> ''alpha'', ''SecretString'' \<mapsto> ''plain-text-secret'']"
      and v = "''plain-text-secret''" and w = "example_world []"]
    fetch_secret_result [where boto = example_boto and region_name = "''us-west-2''"
      and c = example_client and secret_name = "''gone''" and str_e = "''not found''"
      and w = "example_world []"]
    fetch_secret_result [where boto = example_boto and region_name = "''us-west-2''"
      and c = example_client and secret_name = "''locked''" and str_e = "''denied''"
      and code = "''AccessDeniedException''" and w = "example_world []"]
  by (simp add: example_defs)

text \<open>
  C2. In a run whose fetch stage returns \<open>None\<close>, \<open>main\<close> prints \<open>Exiting program.\<close> and
  returns: that line is the only event after the fetch, no file has been created or
  changed, and the screen has not been cleared.
\<close>

theorem fetch_failure_exits:
  assumes "fetch_stage env w = (Inr None, w1)"
  shows "main env w = (Inr (), w1\<lparr>events := events w1 @ [Print ''Exiting program.'']\<rparr>)
       \<and> files w1 = files w
       \<and> (\<exists>new. events w1 = events w @ new \<and> list_all (\<lambda>ev. \<not> is_clear ev) new)"
proof -
  have "main env w = (Inr (), w1\<lparr>events := events w1 @ [Print ''Exiting program.'']\<rparr>)"
    using assms by (simp add: main_def deliver_def io_defs)
  moreover have "files w1 = files w"
    using keeps_filesD [OF keeps_files_fetch_stage assms] .
  moreover have "emits_only (\<lambda>ev. \<not> is_clear ev) (fetch_stage env)"
    by (rule emits_only_fetch_stage) (simp_all add: is_clear_def)
  then have "\<exists>new. events w1 = events w @ new \<and> list_all (\<lambda>ev. \<not> is_clear ev) new"
    using emits_onlyD [of _ "fetch_stage env" w] assms by simp
  ultimately show ?thesis by blast
qed

theorem fetch_failure_exits_witness:
  "fetch_stage (example_env (Some ''us-west-2'') (Some ''out.txt'')) (example_world [''4'']) =
     (Inr None,
      \<lparr>stdin = [], events =
        [AwsClient ''us-west-2'', Print ''Available Secrets:'', Print ''1. alpha'',
         Print ''2. beta'', Print ''3. blob'', Print ''4. gone'', Print ''5. locked'',
         Prompt ''Enter the number of the secret you want to fetch: '',
         AwsClient ''us-west-2'', GetSecretValue ''gone'',
         Print (''ERROR: Secret '' @ squote @ ''gone'' @ squote @ '' not found.'')],
       files = [''old.txt'' \<mapsto> ''old'']\<rparr>)
 \<and> main (example_env (Some ''us-west-2'') (Some ''out.txt'')) (example_world [''4'']) =
     (Inr (),
      \<lparr>stdin = [], events =
        [AwsClient ''us-west-2'', Print ''Available Secrets:'', Print ''1. alpha'',
         Print ''2. beta'', Print ''3. blob'', Print ''4. gone'', Print ''5. locked'',
         Prompt ''Enter the number of the secret you want to fetch: '',
         AwsClient ''us-west-2'', GetSecretValue ''gone'',
         Print (''ERROR: Secret '' @ squote @ ''gone'' @ squote @ '' not found.''),
         Print ''Exiting program.''],
       files = [''old.txt'' \<mapsto> ''old'']\<rparr>)"
  using fetch_failure_exits [where env = "example_env (Some ''us-west-2'') (Some ''out.txt'')"
      and w = "example_world [''4'']"
      and ?w1.0 = "\<lparr>stdin = [], events =
        [AwsClient ''us-west-2'', Print ''Available Secrets:'', Print ''1. alpha'',
         Print ''2. beta'', Print ''3. blob'', Print ''4. gone'', Print ''5. locked'',
         Prompt ''Enter the number of the secret you want to fetch: '',
         AwsClient ''us-west-2'', GetSecretValue ''gone'',
         Print (''ERROR: Secret '' @ squote @ ''gone'' @ squote @ '' not found.'')],
       files = [''old.txt'' \<mapsto> ''old'']\<rparr>"]
  by (simp add: example_defs run_defs int_defs)




text \<open>
  C4 as stated does not hold for every string. A lone surrogate cannot be encoded: the
  write raises \<open>UnicodeEncodeError\<close> and leaves the file empty. A carriage return is
  written as it is but read back as a line feed. And on \<open>nt\<close> a line feed is stored as
  \<open>CR LF\<close>, so the file is not the value verbatim.
\<close>

theorem write_read_counterexample:
  "can_create (example_env None None) ''out.txt''
 \<and> write_to_file (can_create (example_env None None)) ''posix'' [0xD800] ''out.txt''
       (example_world []) =
     (Inl UnicodeEncodeError,
      \<lparr>stdin = [], events = [], files = [''old.txt'' \<mapsto> ''old'', ''out.txt'' \<mapsto> [] ]\<rparr>)
 \<and> write_to_file (can_create (example_env None None)) ''posix'' [97, 13, 98] ''out.txt''
       (example_world []) =
     (Inr (),
      \<lparr>stdin = [], events = [],
       files = [''old.txt'' \<mapsto> ''old'', ''out.txt'' \<mapsto> map char_of [97, 13, 98 :: nat] ]\<rparr>)
 \<and> read_text
       \<lparr>stdin = [], events = [],
        files = [''old.txt'' \<mapsto> ''old'', ''out.txt'' \<mapsto> map char_of [97, 13, 98 :: nat] ]\<rparr>
       ''out.txt'' = Inr [97, 10, 98]
 \<and> write_to_file (can_create (example_env None None)) ''nt'' [97, 10, 98] ''out.txt''
       (example_world []) =
     (Inr (),
      \<lparr>stdin = [], events = [],
       files = [''old.txt'' \<mapsto> ''old'',
                ''out.txt'' \<mapsto> map char_of [97, 13, 10, 98 :: nat] ]\<rparr>)"
  by (simp add: example_env_def example_world_def write_to_file_eq read_text_def linesep_def
        translate_newlines_def utf8_def utf8_cp_def encodable_def is_surrogate_def
        continuation_def)

text \<open>
  C4, as amended. Let \<open>secret_value\<close> be a string without surrogates and the path one that
  can be created. Then \<open>write_to_file\<close> succeeds, and whatever the file held before it
  now holds the UTF-8 encoding of the value with every line feed replaced by the line
  separator of the platform; off \<open>nt\<close> that is the encoding of the value itself, with
  nothing added. If moreover the value has no carriage return, reading the file back as
  text gives the value.
\<close>

theorem write_read_roundtrip:
  assumes "creatable output_file" and "list_all encodable secret_value"
  shows "write_to_file creatable os secret_value output_file w =
           (Inr (), w\<lparr>files := (files w)(output_file \<mapsto>
              map char_of (utf8 (translate_newlines (linesep os) secret_value)))\<rparr>)
       \<and> (os \<noteq> ''nt'' \<longrightarrow>
            files (snd (write_to_file creatable os secret_value output_file w)) output_file
              = Some (map char_of (utf8 secret_value)))
       \<and> (13 \<notin> set secret_value \<longrightarrow>
            read_text (snd (write_to_file creatable os secret_value output_file w)) output_file
              = Inr secret_value)"
proof (intro conjI impI)
  show w: "write_to_file creatable os secret_value output_file w =
           (Inr (), w\<lparr>files := (files w)(output_file \<mapsto>
              map char_of (utf8 (translate_newlines (linesep os) secret_value)))\<rparr>)"
    using assms by (simp add: write_to_file_eq)
  {
    assume "os \<noteq> ''nt''"
    then show "files (snd (write_to_file creatable os secret_value output_file w)) output_file
              = Some (map char_of (utf8 secret_value))"
      by (simp add: w linesep_def translate_posix)
  }
  {
    assume "13 \<notin> set secret_value"
    moreover have "list_all encodable (translate_newlines (linesep os) secret_value)"
      using assms(2) by (simp add: encodable_translate)
    ultimately show
      "read_text (snd (write_to_file creatable os secret_value output_file w)) output_file
         = Inr secret_value"
      by (simp add: w read_text_def of_char_utf8_comp utf8_roundtrip universal_translate)
  }
qed

theorem write_read_roundtrip_witness:
  "can_create (example_env None None) ''out.txt''
 \<and> list_all encodable [0x6B, 0x20AC, 10, 0x1F511]
 \<and> write_to_file (can_create (example_env None None)) ''posix'' [0x6B, 0x20AC, 10, 0x1F511]
       ''out.txt''
       \<lparr>stdin = [], events = [], files = [''out.txt'' \<mapsto> ''something longer than the secret'']\<rparr>
   = (Inr (),
      \<lparr>stdin = [], events = [],
       files = [''out.txt'' \<mapsto>
         map char_of [0x6B, 0xE2, 0x82, 0xAC, 0x0A, 0xF0, 0x9F, 0x94, 0x91 :: nat] ]\<rparr>)
 \<and> read_text
       (snd (write_to_file (can_create (example_env None None)) ''posix''
          [0x6B, 0x20AC, 10, 0x1F511] ''out.txt''
          \<lparr>stdin = [], events = [],
           files = [''out.txt'' \<mapsto> ''something longer than the secret'']\<rparr>)) ''out.txt''
   = Inr [0x6B, 0x20AC, 10, 0x1F511]
 \<and> write_to_file (can_create (example_env None None)) ''nt'' [0x6B, 0x20AC, 10, 0x1F511]
       ''out.txt''
       \<lparr>stdin = [], events = [], files = [''out.txt'' \<mapsto> ''something longer than the secret'']\<rparr>
   = (Inr (),
      \<lparr>stdin = [], events = [],
       files = [''out.txt'' \<mapsto>
         map char_of [0x6B, 0xE2, 0x82, 0xAC, 0x0D, 0x0A, 0xF0, 0x9F, 0x94, 0x91 :: nat] ]\<rparr>)
 \<and> read_text
       (snd (write_to_file (can_create (example_env None None)) ''nt''
          [0x6B, 0x20AC, 10, 0x1F511] ''out.txt''
          \<lparr>stdin = [], events = [],
           files = [''out.txt'' \<mapsto> ''something longer than the secret'']\<rparr>)) ''out.txt''
   = Inr [0x6B, 0x20AC, 10, 0x1F511]"
  using write_read_roundtrip [where creatable = "can_create (example_env None None)"
      and os = "''posix''" and output_file = "''out.txt''"
      and secret_value = "[0x6B, 0x20AC, 10, 0x1F511]"
      and w = "\<lparr>stdin = [], events = [],
                files = [''out.txt'' \<mapsto> ''something longer than the secret'']\<rparr>"]
    write_read_roundtrip [where creatable = "can_create (example_env None None)"
      and os = "''nt''" and output_file = "''out.txt''"
      and secret_value = "[0x6B, 0x20AC, 10, 0x1F511]"
      and w = "\<lparr>stdin = [], events = [],
                files = [''out.txt'' \<mapsto> ''something longer than the secret'']\<rparr>"]
  by (simp add: example_env_def read_text_def linesep_def translate_newlines_def utf8_def
        utf8_cp_def encodable_def is_surrogate_def continuation_def)

text \<open>
  C5. When the environment variable holds a non-empty string, that string is the region:
  the world is untouched by the resolution, the region prompt occurs nowhere in the run,
  and every client the run asks for (by the lister first, by the fetcher later) is for
  that region. When the variable is unset or empty, the run starts with the region
  prompt, and the line typed there, empty or not, is the region of every client.
\<close>

theorem region_precedence:
  "(getenv_AWS_DEFAULT_REGION env = Some r \<and> r \<noteq> [] \<longrightarrow>
      resolve_region env w = (Inr r, w)
    \<and> (\<exists>new. events (snd (main env w)) = events w @ AwsClient r # new
          \<and> list_all (\<lambda>ev. ev \<noteq> Prompt ''Enter the Region Name: ''
                          \<and> (\<forall>r'. ev = AwsClient r' \<longrightarrow> r' = r)) new))
 \<and> ((getenv_AWS_DEFAULT_REGION env = None \<or> getenv_AWS_DEFAULT_REGION env = Some [])
      \<and> stdin w = typed # rest \<longrightarrow>
      resolve_region env w =
        (Inr typed, w\<lparr>stdin := rest, events := events w @ [Prompt ''Enter the Region Name: '']\<rparr>)
    \<and> (\<exists>new. events (snd (main env w)) =
                events w @ Prompt ''Enter the Region Name: '' # AwsClient typed # new
          \<and> list_all (\<lambda>ev. \<forall>r'. ev = AwsClient r' \<longrightarrow> r' = typed) new))"
proof (intro conjI impI)
  assume a: "getenv_AWS_DEFAULT_REGION env = Some r \<and> r \<noteq> []"
  then show res: "resolve_region env w = (Inr r, w)"
    by (simp add: resolve_region_def truthy_def returnE_def)
  show "\<exists>new. events (snd (main env w)) = events w @ AwsClient r # new
          \<and> list_all (\<lambda>ev. ev \<noteq> Prompt ''Enter the Region Name: ''
                          \<and> (\<forall>r'. ev = AwsClient r' \<longrightarrow> r' = r)) new"
    by (rule after_region [OF res]) (simp_all add: NL_def)
next
  assume a: "(getenv_AWS_DEFAULT_REGION env = None \<or> getenv_AWS_DEFAULT_REGION env = Some [])
      \<and> stdin w = typed # rest"
  then show res: "resolve_region env w =
        (Inr typed, w\<lparr>stdin := rest, events := events w @ [Prompt ''Enter the Region Name: '']\<rparr>)"
    by (auto simp: resolve_region_def truthy_def py_input_def)
  show "\<exists>new. events (snd (main env w)) =
                events w @ Prompt ''Enter the Region Name: '' # AwsClient typed # new
          \<and> list_all (\<lambda>ev. \<forall>r'. ev = AwsClient r' \<longrightarrow> r' = typed) new"
    using after_region [OF res, of "\<lambda>ev. \<forall>r'. ev = AwsClient r' \<longrightarrow> r' = typed"] by simp
qed

theorem region_precedence_witness:
  "getenv_AWS_DEFAULT_REGION (example_env (Some ''us-west-2'') None) = Some ''us-west-2''
 \<and> resolve_region (example_env (Some ''us-west-2'') None) (example_world [''4'']) =
     (Inr ''us-west-2'', example_world [''4''])
 \<and> events (snd (main (example_env (Some ''us-west-2'') None) (example_world [''4'']))) =
     [AwsClient ''us-west-2'', Print ''Available Secrets:'', Print ''1. alpha'',
      Print ''2. beta'', Print ''3. blob'', Print ''4. gone'', Print ''5. locked'',
      Prompt ''Enter the number of the secret you want to fetch: '',
      AwsClient ''us-west-2'', GetSecretValue ''gone'',
      Print (''ERROR: Secret '' @ squote @ ''gone'' @ squote @ '' not found.''),
      Print ''Exiting program.'']
 \<and> (\<exists>new. events (snd (main (example_env (Some ''us-west-2'') None) (example_world [''4'']))) =
        events (example_world [''4'']) @ AwsClient ''us-west-2'' # new
      \<and> list_all (\<lambda>ev. ev \<noteq> Prompt ''Enter the Region Name: ''
                      \<and> (\<forall>r'. ev = AwsClient r' \<longrightarrow> r' = ''us-west-2'')) new)
 \<and> getenv_AWS_DEFAULT_REGION (example_env (Some []) None) = Some []
 \<and> resolve_region (example_env (Some []) None) (example_world [''us-west-2'', ''4'']) =
     (Inr ''us-west-2'',
      \<lparr>stdin = [''4''], events = [Prompt ''Enter the Region Name: ''],
       files = [''old.txt'' \<mapsto> ''old'']\<rparr>)
 \<and> (\<exists>new. events (snd (main (example_env (Some []) None)
                            (example_world [''us-west-2'', ''4'']))) =
        events (example_world [''us-west-2'', ''4''])
        @ Prompt ''Enter the Region Name: '' # AwsClient ''us-west-2'' # new
      \<and> list_all (\<lambda>ev. \<forall>r'. ev = AwsClient r' \<longrightarrow> r' = ''us-west-2'') new)
 \<and> getenv_AWS_DEFAULT_REGION (example_env None None) = None
 \<and> (\<exists>new. events (snd (main (example_env None None) (example_world [ [], ''1'']))) =
        events (example_world [ [], ''1''])
        @ Prompt ''Enter the Region Name: '' # AwsClient [] # new
      \<and> list_all (\<lambda>ev. \<forall>r'. ev = AwsClient r' \<longrightarrow> r' = []) new)"
  using region_precedence [where env = "example_env (Some ''us-west-2'') None"
      and r = "''us-west-2''" and w = "example_world [''4'']"]
    region_precedence [where env = "example_env (Some []) None"
      and w = "example_world [''us-west-2'', ''4'']" and typed = "''us-west-2''"
      and rest = "[''4'']"]
    region_precedence [where env = "example_env None None"
      and w = "example_world [ [], ''1'']" and typed = "[]" and rest = "[''1'']"]
  by (simp add: example_defs run_defs int_defs)

text \<open>
  C6. When the listing arrives whole as the pages \<open>ps\<close>, and the entries of the pages are
  named \<open>nss\<close> (one list of names a page), \<open>list_all_secrets\<close> returns the concatenation
  of \<open>nss\<close>: every name of every page, in the order of arrival, none dropped, doubled or
  moved.
\<close>

theorem list_all_secrets_concat:
  assumes "boto region_name = Inr c"
    and "paginate c = all_pages ps"
    and "list_all2 page_has_names ps nss"
  shows "list_all_secrets boto region_name w =
           (Inr (concat nss), w\<lparr>events := events w @ [AwsClient region_name]\<rparr>)"
  using assms by (rule lister_concat)

theorem list_all_secrets_concat_witness:
  "example_boto ''us-west-2'' = Inr example_client
 \<and> paginate example_client =
     all_pages [ [''SecretList'' \<mapsto> [ [''Name'' \<mapsto> ''alpha''], [''Name'' \<mapsto> ''beta''] ] ],
                [''SecretList'' \<mapsto> [ [''Name'' \<mapsto> ''blob''], [''Name'' \<mapsto> ''gone''],
                                         [''Name'' \<mapsto> ''locked''] ] ] ]
 \<and> list_all2 page_has_names
       [ [''SecretList'' \<mapsto> [ [''Name'' \<mapsto> ''alpha''], [''Name'' \<mapsto> ''beta''] ] ],
        [''SecretList'' \<mapsto> [ [''Name'' \<mapsto> ''blob''], [''Name'' \<mapsto> ''gone''],
                                 [''Name'' \<mapsto> ''locked''] ] ] ]
       [ [''alpha'', ''beta''], [''blob'', ''gone'', ''locked''] ]
 \<and> list_all_secrets example_boto ''us-west-2'' (example_world []) =
     (Inr [''alpha'', ''beta'', ''blob'', ''gone'', ''locked''],
      \<lparr>stdin = [], events = [AwsClient ''us-west-2''], files = [''old.txt'' \<mapsto> ''old'']\<rparr>)"
  using list_all_secrets_concat [where boto = example_boto and region_name = "''us-west-2''"
      and c = example_client
      and ps = "[ [''SecretList'' \<mapsto> [ [''Name'' \<mapsto> ''alpha''], [''Name'' \<mapsto> ''beta''] ] ],
                [''SecretList'' \<mapsto> [ [''Name'' \<mapsto> ''blob''], [''Name'' \<mapsto> ''gone''],
                                         [''Name'' \<mapsto> ''locked''] ] ] ]"
      and nss = "[ [''alpha'', ''beta''], [''blob'', ''gone'', ''locked''] ]"
      and w = "example_world []"]
  by (simp add: example_defs all_pages_def page_has_names_def)

text \<open>
  C7 as stated does not hold: in the region whose listing is empty, typing \<open>1\<close> at the
  selection prompt ends the run with an uncaught \<open>IndexError\<close>.
\<close>

theorem no_secrets_counterexample:
  "list_all_secrets example_boto ''eu-west-1'' (example_world [''1'']) =
     (Inr [], \<lparr>stdin = [''1''], events = [AwsClient ''eu-west-1''],
              files = [''old.txt'' \<mapsto> ''old'']\<rparr>)
 \<and> main (example_env (Some ''eu-west-1'') None) (example_world [''1'']) =
     (Inl IndexError,
      \<lparr>stdin = [], events =
        [AwsClient ''eu-west-1'', Print ''Available Secrets:'',
         Prompt ''Enter the number of the secret you want to fetch: ''],
       files = [''old.txt'' \<mapsto> ''old'']\<rparr>)"
  by (simp add: example_defs run_defs int_defs)

text \<open>
  C7, as amended. When every page of the listing is empty, \<open>list_all_secrets\<close> returns
  the empty list. A run whose menu is empty still prompts for a number, and then ends
  with an exception that nothing catches, \<open>IndexError\<close> for every integer typed,
  \<open>ValueError\<close> for any other text, \<open>EOFError\<close> at the end of input; that prompt is its last
  event, and no file is touched.
\<close>

theorem no_secrets_then_crash:
  "(boto region_name = Inr c \<and> paginate c = all_pages ps
      \<and> (\<forall>p \<in> set ps. p ''SecretList'' = Some []) \<longrightarrow>
      list_all_secrets boto region_name w0 =
        (Inr [], w0\<lparr>events := events w0 @ [AwsClient region_name]\<rparr>))
 \<and> (menu_stage env w = (Inr (r, []), w2) \<longrightarrow>
      (\<exists>e. fst (main env w) = Inl e \<and> e \<in> {EOFError, ValueError, IndexError})
    \<and> (\<forall>line rest n. stdin w2 = line # rest \<and> py_int line = Inr n \<longrightarrow>
          fst (main env w) = Inl IndexError)
    \<and> events (snd (main env w)) =
        events w2 @ [Prompt ''Enter the number of the secret you want to fetch: '']
    \<and> files (snd (main env w)) = files w2)"
proof (intro conjI impI)
  assume a: "boto region_name = Inr c \<and> paginate c = all_pages ps
      \<and> (\<forall>p \<in> set ps. p ''SecretList'' = Some [])"
  then have "list_all2 page_has_names ps (map (\<lambda>_. []) ps)"
    by (simp add: empty_pages_names)
  with a have "list_all_secrets boto region_name w0 =
      (Inr (concat (map (\<lambda>_. []) ps)), w0\<lparr>events := events w0 @ [AwsClient region_name]\<rparr>)"
    using lister_concat by blast
  then show "list_all_secrets boto region_name w0 =
        (Inr [], w0\<lparr>events := events w0 @ [AwsClient region_name]\<rparr>)"
    by simp
next
  assume m: "menu_stage env w = (Inr (r, []), w2)"
  have sel: "select_secret [] w2 =
     (case stdin w2 of
        [] \<Rightarrow> Inl EOFError
      | line # rest \<Rightarrow> (case py_int line of Inl e \<Rightarrow> Inl ValueError | Inr n \<Rightarrow> Inl IndexError),
      w2\<lparr>stdin := tl (stdin w2),
         events := events w2 @ [Prompt ''Enter the number of the secret you want to fetch: '']\<rparr>)"
    by (cases "stdin w2")
       (auto simp: select_secret_def py_input_def io_defs py_getitem_def
          dest: py_int_error split: sum.splits)
  have mn: "main env w = (case select_secret [] w2 of (Inl e, w') \<Rightarrow> (Inl e, w')
       | (Inr name, w') \<Rightarrow> bindE (fetch_secret (session_client env) name r) (deliver env) w')"
    using m by (simp add: main_def fetch_stage_menu bindE_Inr bindE_assoc)
       (simp add: bindE_def)
  show "\<exists>e. fst (main env w) = Inl e \<and> e \<in> {EOFError, ValueError, IndexError}"
    unfolding mn sel by (auto split: list.splits sum.splits)
  show "\<forall>line rest n. stdin w2 = line # rest \<and> py_int line = Inr n \<longrightarrow>
          fst (main env w) = Inl IndexError"
    unfolding mn sel by (auto split: list.splits sum.splits)
  show "events (snd (main env w)) =
        events w2 @ [Prompt ''Enter the number of the secret you want to fetch: '']"
    unfolding mn sel by (auto split: list.splits sum.splits)
  show "files (snd (main env w)) = files w2"
    unfolding mn sel by (auto split: list.splits sum.splits)
qed

theorem no_secrets_then_crash_witness:
  "example_boto ''eu-west-1'' = Inr empty_client
 \<and> paginate empty_client = all_pages [ [''SecretList'' \<mapsto> [] ] ]
 \<and> list_all_secrets example_boto ''eu-west-1'' (example_world []) =
     (Inr [], \<lparr>stdin = [], events = [AwsClient ''eu-west-1''],
              files = [''old.txt'' \<mapsto> ''old'']\<rparr>)
 \<and> menu_stage (example_env (Some ''eu-west-1'') None) (example_world [''0'']) =
     (Inr (''eu-west-1'', []),
      \<lparr>stdin = [''0''], events = [AwsClient ''eu-west-1'', Print ''Available Secrets:''],
       files = [''old.txt'' \<mapsto> ''old'']\<rparr>)
 \<and> py_int ''0'' = Inr 0
 \<and> fst (main (example_env (Some ''eu-west-1'') None) (example_world [''0''])) = Inl IndexError
 \<and> events (snd (main (example_env (Some ''eu-west-1'') None) (example_world [''0'']))) =
     [AwsClient ''eu-west-1'', Print ''Available Secrets:'',
      Prompt ''Enter the number of the secret you want to fetch: '']
 \<and> files (snd (main (example_env (Some ''eu-west-1'') None) (example_world [''0''])))
     = [''old.txt'' \<mapsto> ''old'']"
  using no_secrets_then_crash [where boto = example_boto and region_name = "''eu-west-1''"
      and c = empty_client and ps = "[ [''SecretList'' \<mapsto> [] ] ]" and ?w0.0 = "example_world []"
      and env = "example_env (Some ''eu-west-1'') None" and w = "example_world [''0'']"
      and r = "''eu-west-1''"
      and ?w2.0 = "\<lparr>stdin = [''0''],
                    events = [AwsClient ''eu-west-1'', Print ''Available Secrets:''],
                    files = [''old.txt'' \<mapsto> ''old'']\<rparr>"]
  by (simp add: example_defs run_defs int_defs all_pages_def)

text \<open>
  C8 as stated does not hold: with five names listed, typing \<open>0\<close> is no error. The index
  \<open>-1\<close> selects the last name, the fetcher is called with it, and the run ends normally.
\<close>

theorem selection_counterexample:
  "py_int ''0'' = Inr 0
 \<and> select_secret [''alpha'', ''beta'', ''blob'', ''gone'', ''locked''] (example_world [''0'']) =
     (Inr ''locked'',
      \<lparr>stdin = [], events = [Prompt ''Enter the number of the secret you want to fetch: ''], files = [''old.txt'' \<mapsto> ''old'']\<rparr>)
 \<and> main (example_env (Some ''us-west-2'') None) (example_world [''0'']) =
     (Inr (),
      \<lparr>stdin = [], events =
        [AwsClient ''us-west-2'', Print ''Available Secrets:'', Print ''1. alpha'',
         Print ''2. beta'', Print ''3. blob'', Print ''4. gone'', Print ''5. locked'',
         Prompt ''Enter the number of the secret you want to fetch: '',
         AwsClient ''us-west-2'', GetSecretValue ''locked'',
         Print (''ERROR: An error occurred while fetching secret '' @ squote @ ''locked''
                @ squote @ '': denied''),
         Print ''Exiting program.''],
       files = [''old.txt'' \<mapsto> ''old'']\<rparr>)"
  by (simp add: example_defs run_defs int_defs)

text \<open>
  C8, as amended. At the selection prompt, a line that \<open>int\<close> rejects ends the run with
  \<open>ValueError\<close>, and a number \<open>n\<close> above the length of the list, or at most minus the
  length, ends it with \<open>IndexError\<close>; for \<open>1 \<le> n \<le> length\<close> the \<open>n\<close>-th name of the list is
  selected and is the name the fetcher is called with.
\<close>

theorem selection_by_number:
  assumes "menu_stage env w = (Inr (region_name, secret_names), w2)"
    and "stdin w2 = line # rest"
  shows "(py_int line = Inl e \<longrightarrow>
            e = ValueError
          \<and> main env w =
              (Inl ValueError,
               answered ''Enter the number of the secret you want to fetch: '' w2))
       \<and> (py_int line = Inr n \<longrightarrow>
            (int (length secret_names) < n \<or> n \<le> - int (length secret_names)) \<longrightarrow>
            main env w =
              (Inl IndexError,
               answered ''Enter the number of the secret you want to fetch: '' w2))
       \<and> (py_int line = Inr n \<longrightarrow> 1 \<le> n \<and> n \<le> int (length secret_names) \<longrightarrow>
            select_secret secret_names w2 =
              (Inr (secret_names ! nat (n - 1)),
               answered ''Enter the number of the secret you want to fetch: '' w2)
          \<and> fetch_stage env w =
              fetch_secret (session_client env) (secret_names ! nat (n - 1)) region_name
                (answered ''Enter the number of the secret you want to fetch: '' w2))"
proof (intro conjI impI)
  let ?w3 = "answered ''Enter the number of the secret you want to fetch: '' w2"
  have sel: "select_secret secret_names w2 =
     (case py_int line of Inl e \<Rightarrow> Inl e | Inr n \<Rightarrow> py_getitem secret_names (n - 1), ?w3)"
    using assms(2) by (simp add: select_secret_eq answered_def)
  {
    assume "py_int line = Inl e"
    then have pe: "py_int line = Inl ValueError" and "e = ValueError"
      using py_int_error by auto
    then show "e = ValueError" by simp
    show "main env w = (Inl ValueError, ?w3)"
      using assms(1) pe by (simp add: main_def fetch_stage_menu bindE_Inr bindE_Inl sel)
  }
  {
    assume "py_int line = Inr n"
      and "int (length secret_names) < n \<or> n \<le> - int (length secret_names)"
    then have "select_secret secret_names w2 = (Inl IndexError, ?w3)"
      by (auto simp: sel py_getitem_def)
    then show "main env w = (Inl IndexError, ?w3)"
      using assms(1) by (simp add: main_def fetch_stage_menu bindE_Inr bindE_Inl)
  }
  {
    assume "py_int line = Inr n" and "1 \<le> n \<and> n \<le> int (length secret_names)"
    then show s: "select_secret secret_names w2 = (Inr (secret_names ! nat (n - 1)), ?w3)"
      by (auto simp: sel py_getitem_def)
    show "fetch_stage env w =
            fetch_secret (session_client env) (secret_names ! nat (n - 1)) region_name ?w3"
      using assms(1) s by (simp add: fetch_stage_menu bindE_Inr)
  }
qed

theorem selection_by_number_witness:
  "menu_stage (example_env (Some ''us-west-2'') None) (example_world [''2'']) =
     (Inr (''us-west-2'', [''alpha'', ''beta'', ''blob'', ''gone'', ''locked'']), \<lparr>stdin = [''2''], events = [AwsClient ''us-west-2'', Print ''Available Secrets:'', Print ''1. alpha'',
         Print ''2. beta'', Print ''3. blob'', Print ''4. gone'', Print ''5. locked''],
        files = [''old.txt'' \<mapsto> ''old'']\<rparr>)
 \<and> py_int ''2'' = Inr 2
 \<and> select_secret [''alpha'', ''beta'', ''blob'', ''gone'', ''locked''] (\<lparr>stdin = [''2''], events = [AwsClient ''us-west-2'', Print ''Available Secrets:'', Print ''1. alpha'',
         Print ''2. beta'', Print ''3. blob'', Print ''4. gone'', Print ''5. locked''],
        files = [''old.txt'' \<mapsto> ''old'']\<rparr>) =
     (Inr ''beta'', answered ''Enter the number of the secret you want to fetch: '' (\<lparr>stdin = [''2''], events = [AwsClient ''us-west-2'', Print ''Available Secrets:'', Print ''1. alpha'',
         Print ''2. beta'', Print ''3. blob'', Print ''4. gone'', Print ''5. locked''],
        files = [''old.txt'' \<mapsto> ''old'']\<rparr>))
 \<and> fetch_stage (example_env (Some ''us-west-2'') None) (example_world [''2'']) =
     fetch_secret example_boto ''beta'' ''us-west-2'' (answered ''Enter the number of the secret you want to fetch: '' (\<lparr>stdin = [''2''], events = [AwsClient ''us-west-2'', Print ''Available Secrets:'', Print ''1. alpha'',
         Print ''2. beta'', Print ''3. blob'', Print ''4. gone'', Print ''5. locked''],
        files = [''old.txt'' \<mapsto> ''old'']\<rparr>))
 \<and> py_int ''6'' = Inr 6
 \<and> main (example_env (Some ''us-west-2'') None) (example_world [''6'']) =
     (Inl IndexError, answered ''Enter the number of the secret you want to fetch: '' (\<lparr>stdin = [''6''], events = [AwsClient ''us-west-2'', Print ''Available Secrets:'', Print ''1. alpha'',
         Print ''2. beta'', Print ''3. blob'', Print ''4. gone'', Print ''5. locked''],
        files = [''old.txt'' \<mapsto> ''old'']\<rparr>))
 \<and> py_int ''-5'' = Inr (- 5)
 \<and> main (example_env (Some ''us-west-2'') None) (example_world [''-5'']) =
     (Inl IndexError, answered ''Enter the number of the secret you want to fetch: '' (\<lparr>stdin = [''-5''], events = [AwsClient ''us-west-2'', Print ''Available Secrets:'', Print ''1. alpha'',
         Print ''2. beta'', Print ''3. blob'', Print ''4. gone'', Print ''5. locked''],
        files = [''old.txt'' \<mapsto> ''old'']\<rparr>))
 \<and> py_int ''two'' = Inl ValueError
 \<and> main (example_env (Some ''us-west-2'') None) (example_world [''two'']) =
     (Inl ValueError, answered ''Enter the number of the secret you want to fetch: '' (\<lparr>stdin = [''two''], events = [AwsClient ''us-west-2'', Print ''Available Secrets:'', Print ''1. alpha'',
         Print ''2. beta'', Print ''3. blob'', Print ''4. gone'', Print ''5. locked''],
        files = [''old.txt'' \<mapsto> ''old'']\<rparr>))"
  using selection_by_number [where env = "example_env (Some ''us-west-2'') None"
      and w = "example_world [''2'']" and region_name = "''us-west-2''"
      and secret_names = "[''alpha'', ''beta'', ''blob'', ''gone'', ''locked'']" and ?w2.0 = "\<lparr>stdin = [''2''], events = [AwsClient ''us-west-2'', Print ''Available Secrets:'', Print ''1. alpha'',
         Print ''2. beta'', Print ''3. blob'', Print ''4. gone'', Print ''5. locked''],
        files = [''old.txt'' \<mapsto> ''old'']\<rparr>" and line = "''2''" and rest = "[]"
      and n = 2]
    selection_by_number [where env = "example_env (Some ''us-west-2'') None"
      and w = "example_world [''6'']" and region_name = "''us-west-2''"
      and secret_names = "[''alpha'', ''beta'', ''blob'', ''gone'', ''locked'']" and ?w2.0 = "\<lparr>stdin = [''6''], events = [AwsClient ''us-west-2'', Print ''Available Secrets:'', Print ''1. alpha'',
         Print ''2. beta'', Print ''3. blob'', Print ''4. gone'', Print ''5. locked''],
        files = [''old.txt'' \<mapsto> ''old'']\<rparr>" and line = "''6''" and rest = "[]"
      and n = 6]
    selection_by_number [where env = "example_env (Some ''us-west-2'') None"
      and w = "example_world [''-5'']" and region_name = "''us-west-2''"
      and secret_names = "[''alpha'', ''beta'', ''blob'', ''gone'', ''locked'']" and ?w2.0 = "\<lparr>stdin = [''-5''], events = [AwsClient ''us-west-2'', Print ''Available Secrets:'', Print ''1. alpha'',
         Print ''2. beta'', Print ''3. blob'', Print ''4. gone'', Print ''5. locked''],
        files = [''old.txt'' \<mapsto> ''old'']\<rparr>" and line = "''-5''" and rest = "[]"
      and n = "- 5"]
    selection_by_number [where env = "example_env (Some ''us-west-2'') None"
      and w = "example_world [''two'']" and region_name = "''us-west-2''"
      and secret_names = "[''alpha'', ''beta'', ''blob'', ''gone'', ''locked'']" and ?w2.0 = "\<lparr>stdin = [''two''], events = [AwsClient ''us-west-2'', Print ''Available Secrets:'', Print ''1. alpha'',
         Print ''2. beta'', Print ''3. blob'', Print ''4. gone'', Print ''5. locked''],
        files = [''old.txt'' \<mapsto> ''old'']\<rparr>" and line = "''two''" and rest = "[]"
      and e = ValueError]
  by (simp add: example_defs run_defs int_defs)




text \<open>
  C10. When the call succeeds and the response has no \<open>SecretString\<close>,
  \<open>fetch_secret\<close> does not return \<open>None\<close>: it raises \<open>KeyError\<close>, which the handler for
  \<open>ClientError\<close> does not catch.
\<close>

theorem fetch_secret_missing_payload:
  assumes "boto region_name = Inr c"
    and "get_secret_value c secret_name = Inr response"
    and "response ''SecretString'' = None"
  shows "fetch_secret boto secret_name region_name w =
           (Inl (KeyError ''SecretString''),
            w\<lparr>events := events w @ [AwsClient region_name, GetSecretValue secret_name]\<rparr>)"
  using assms by (simp add: fetch_secret_def io_defs)

theorem fetch_secret_missing_payload_witness:
  "example_boto ''us-west-2'' = Inr example_client
 \<and> get_secret_value example_client ''blob'' = Inr [''Name'' \<mapsto> ''blob'']
 \<and> [''Name'' \<mapsto> ''blob''] ''SecretString'' = None
 \<and> fetch_secret example_boto ''blob'' ''us-west-2'' (example_world []) =
     (Inl (KeyError ''SecretString''),
      \<lparr>stdin = [], events = [AwsClient ''us-west-2'', GetSecretValue ''blob''],
       files = [''old.txt'' \<mapsto> ''old'']\<rparr>)"
  using fetch_secret_missing_payload [where boto = example_boto
      and region_name = "''us-west-2''" and c = example_client and secret_name = "''blob''"
      and response = "[''Name'' \<mapsto> ''blob'']" and w = "example_world []"]
  by (simp add: example_defs)

end
